theory Spec2Isabelle
  imports Complex_Main "HOL-Library.Sublist"
begin

section \<open>The FFT analyzer screen: data\<close>

text \<open>
  The embedding follows \<^verbatim>\<open>src/fft-analysis/app/(tabs)/index.tsx\<close>. The component
  \<^verbatim>\<open>App\<close> keeps seven \<^verbatim>\<open>useState\<close> variables; its handlers call \<^verbatim>\<open>fetch\<close> and hang
  continuations on the returned promise. JavaScript numbers are carried around and never
  computed with, so they are modelled as \<open>real\<close>.
\<close>

type_synonym number = real

record PeakData =
  frequency :: number
  magnitude :: number

record FFTData =
  timestamp :: number
  peak_data :: "PeakData list"
  max_voltage :: number
  total_power :: number
  is_running :: bool

text \<open>The two fields that \<^verbatim>\<open>testConnection\<close> reads from the body of \<^verbatim>\<open>/api/status\<close>.\<close>

record StatusData =
  version :: string
  analysis_running :: bool

text \<open>One call of \<^verbatim>\<open>fetch\<close>: the URL and the options passed with it.\<close>

record request =
  url :: string
  http_method :: string
  headers :: "(string \<times> string) list"

text \<open>
  A promise that has not settled yet. \<open>chain\<close> says which handler installed its
  continuations; \<open>at_ip\<close> and \<open>at_port\<close> are the values of \<^verbatim>\<open>ipAddress\<close> and
  \<^verbatim>\<open>port\<close> in the render whose closure made the call (the continuation of
  \<^verbatim>\<open>startAnalysis\<close> calls \<^verbatim>\<open>fetchFFTData\<close> of that same closure).
\<close>

datatype chain = StatusChain | StartChain | StopChain | DataChain

record promise =
  chain :: chain
  at_ip :: string
  at_port :: string

text \<open>The interval installed by \<^verbatim>\<open>setInterval(fetchFFTData, 1000)\<close>, with its closure.\<close>

record interval =
  cb_ip :: string
  cb_port :: string
  delay :: nat

text \<open>
  The state: the seven \<^verbatim>\<open>useState\<close> variables, then what the component has done to
  its environment: the active interval, every \<^verbatim>\<open>fetch\<close> issued so far (oldest first),
  the promises still pending, the alerts shown (title, message) and the console lines.
\<close>

record App =
  showWelcome :: bool
  ipAddress :: string
  port :: string
  isConnected :: bool
  isAnalysisRunning :: bool
  fftData :: "FFTData option"
  loading :: bool
  timer :: "interval option"
  requests :: "request list"
  inflight :: "promise list"
  alerts :: "(string \<times> string) list"
  console :: "string list"

definition App_init :: App where
  "App_init = \<lparr>showWelcome = True, ipAddress = ''10.141.192.169'', port = ''5000'',
     isConnected = False, isAnalysisRunning = False, fftData = None, loading = False,
     timer = None, requests = [], inflight = [], alerts = [], console = []\<rparr>"

section \<open>The handlers\<close>

definition api_url :: "string \<Rightarrow> string \<Rightarrow> string \<Rightarrow> string" where
  "api_url ip p path = ''http://'' @ ip @ '':'' @ p @ path"

definition get_request :: "string \<Rightarrow> request" where
  "get_request u = \<lparr>url = u, http_method = ''GET'', headers = []\<rparr>"

definition post_request :: "string \<Rightarrow> request" where
  "post_request u =
     \<lparr>url = u, http_method = ''POST'', headers = [(''Content-Type'', ''application/json'')]\<rparr>"

definition fetch :: "request \<Rightarrow> promise \<Rightarrow> App \<Rightarrow> App" where
  "fetch r p s = s\<lparr>requests := requests s @ [r], inflight := inflight s @ [p]\<rparr>"

definition Alert_alert :: "string \<Rightarrow> string \<Rightarrow> App \<Rightarrow> App" where
  "Alert_alert title msg s = s\<lparr>alerts := alerts s @ [(title, msg)]\<rparr>"

definition console_log :: "string \<Rightarrow> App \<Rightarrow> App" where
  "console_log msg s = s\<lparr>console := console s @ [msg]\<rparr>"

text \<open>\<^verbatim>\<open>fetchFFTData\<close>: the call, and the two continuations of its promise.\<close>

definition fetchFFTData :: "string \<Rightarrow> string \<Rightarrow> App \<Rightarrow> App" where
  "fetchFFTData ip p s =
     fetch (get_request (api_url ip p ''/api/fft/data''))
       \<lparr>chain = DataChain, at_ip = ip, at_port = p\<rparr> s"

definition fetchFFTData_then :: "FFTData \<Rightarrow> App \<Rightarrow> App" where
  "fetchFFTData_then d s = s\<lparr>fftData := Some d, isAnalysisRunning := is_running d\<rparr>"

text \<open>
  The same continuation when the body is \<^verbatim>\<open>null\<close>: \<^verbatim>\<open>setFftData(data)\<close> has run
  when reading \<^verbatim>\<open>data.is_running\<close> throws.
\<close>

definition fetchFFTData_then_throws :: "App \<Rightarrow> App" where
  "fetchFFTData_then_throws s = s\<lparr>fftData := None\<rparr>"

definition fetchFFTData_catch :: "App \<Rightarrow> App" where
  "fetchFFTData_catch s = console_log ''Error fetching FFT data'' s"

text \<open>\<^verbatim>\<open>testConnection\<close>: no check of \<^verbatim>\<open>ipAddress\<close> or \<^verbatim>\<open>port\<close> precedes the call.\<close>

definition testConnection :: "App \<Rightarrow> App" where
  "testConnection s =
     fetch (get_request (api_url (ipAddress s) (port s) ''/api/status''))
       \<lparr>chain = StatusChain, at_ip = ipAddress s, at_port = port s\<rparr>
       (s\<lparr>loading := True\<rparr>)"

definition testConnection_then :: "StatusData \<Rightarrow> App \<Rightarrow> App" where
  "testConnection_then d s =
     Alert_alert ''Connection Successful!''
       (''Connected to server version '' @ version d @ ''.'')
       (s\<lparr>isConnected := True, isAnalysisRunning := analysis_running d\<rparr>)"

text \<open>
  The same continuation when the body is \<^verbatim>\<open>null\<close>: \<^verbatim>\<open>setIsConnected(true)\<close> has run
  when reading \<^verbatim>\<open>data.analysis_running\<close> throws.
\<close>

definition testConnection_then_throws :: "App \<Rightarrow> App" where
  "testConnection_then_throws s = s\<lparr>isConnected := True\<rparr>"

definition testConnection_catch :: "App \<Rightarrow> App" where
  "testConnection_catch s =
     Alert_alert ''Connection Failed''
       ''Error connecting to server. Please check the IP address and port.''
       (s\<lparr>isConnected := False\<rparr>)"

definition setLoading_false :: "App \<Rightarrow> App" where
  "setLoading_false s = s\<lparr>loading := False\<rparr>"

text \<open>\<^verbatim>\<open>startAnalysis\<close> and \<^verbatim>\<open>stopAnalysis\<close>: neither looks at the state before the call.\<close>

definition startAnalysis :: "App \<Rightarrow> App" where
  "startAnalysis s =
     fetch (post_request (api_url (ipAddress s) (port s) ''/api/fft/start''))
       \<lparr>chain = StartChain, at_ip = ipAddress s, at_port = port s\<rparr>
       (s\<lparr>loading := True\<rparr>)"

definition startAnalysis_then :: "promise \<Rightarrow> bool \<Rightarrow> App \<Rightarrow> App" where
  "startAnalysis_then p success s =
     (if success then fetchFFTData (at_ip p) (at_port p) (s\<lparr>isAnalysisRunning := True\<rparr>)
      else Alert_alert ''Error'' ''Failed to start analysis'' s)"

definition startAnalysis_catch :: "App \<Rightarrow> App" where
  "startAnalysis_catch s = Alert_alert ''Error'' ''Network error'' s"

definition stopAnalysis :: "App \<Rightarrow> App" where
  "stopAnalysis s =
     fetch (post_request (api_url (ipAddress s) (port s) ''/api/fft/stop''))
       \<lparr>chain = StopChain, at_ip = ipAddress s, at_port = port s\<rparr>
       (s\<lparr>loading := True\<rparr>)"

definition stopAnalysis_then :: "bool \<Rightarrow> App \<Rightarrow> App" where
  "stopAnalysis_then success s =
     (if success then s\<lparr>isAnalysisRunning := False\<rparr>
      else Alert_alert ''Error'' ''Failed to stop analysis'' s)"

definition stopAnalysis_catch :: "App \<Rightarrow> App" where
  "stopAnalysis_catch s = Alert_alert ''Error'' ''Network error'' s"

text \<open>The Disconnect button: \<^verbatim>\<open>onPress={() => setIsConnected(false)}\<close>.\<close>

definition disconnect_onPress :: "App \<Rightarrow> App" where
  "disconnect_onPress s = s\<lparr>isConnected := False\<rparr>"

section \<open>The polling effect\<close>

text \<open>
  \<^verbatim>\<open>useEffect(..., [isConnected, isAnalysisRunning])\<close>. React runs it after a render in
  which one of the two dependencies differs from the previous render: first the cleanup
  of the previous run (\<^verbatim>\<open>clearInterval\<close>), then the body. \<open>prev\<close> is the state of the
  previous render. The state updates of one handler are committed in one render, and
  so are those of a \<^verbatim>\<open>.then\<close> that throws together with those of the \<^verbatim>\<open>.catch\<close> and
  \<^verbatim>\<open>.finally\<close> that follow it.
\<close>

definition useEffect :: "App \<Rightarrow> App \<Rightarrow> App" where
  "useEffect prev s =
     (if isConnected prev = isConnected s \<and> isAnalysisRunning prev = isAnalysisRunning s
      then s
      else if isConnected s \<and> isAnalysisRunning s
      then (fetchFFTData (ipAddress s) (port s) (s\<lparr>timer := None\<rparr>))
             \<lparr>timer := Some \<lparr>cb_ip = ipAddress s, cb_port = port s, delay = 1000\<rparr>\<rparr>
      else s\<lparr>timer := None\<rparr>)"

section \<open>Events\<close>

text \<open>
  How a pending promise settles, as far as the continuations can tell.
  \<^item> \<open>Rejected\<close>: the promise rejects before a \<^verbatim>\<open>.then\<close> of the component runs:
    \<^verbatim>\<open>fetch\<close> rejects (host unreachable, timeout) or \<^verbatim>\<open>response.json()\<close> rejects (the
    body is not JSON). Only the \<^verbatim>\<open>.catch\<close> (and \<^verbatim>\<open>.finally\<close>) runs.
  \<^item> \<open>NullJson\<close>: the body decodes to \<^verbatim>\<open>null\<close>. The \<^verbatim>\<open>.then\<close> runs up to its first read
    of a property of \<^verbatim>\<open>data\<close>, which throws; then the \<^verbatim>\<open>.catch\<close> runs.
  \<^item> \<open>StatusJson\<close>, \<open>SuccessJson\<close>, \<open>DataJson\<close>: the body decodes to an object with the
    fields the continuation reads (\<open>SuccessJson b\<close>: \<^verbatim>\<open>data.success\<close> is truthy iff
    \<open>b\<close>). An object without those fields is outside the model.
\<close>

datatype outcome =
    Rejected
  | NullJson
  | StatusJson StatusData
  | SuccessJson bool
  | DataJson FFTData

text \<open>
  What can happen to the component: a touch on one of its widgets, a tick of the
  interval, or the settling of a pending promise. \<open>Settle i r\<close>: the promise at position
  \<open>i\<close> of \<open>inflight\<close> settles with \<open>r\<close>, the reply, if there is one, having a 2xx
  status. \<open>SettleHttp i code r\<close>: the server replies with the HTTP status \<open>code\<close>, for
  instance 500, and \<open>r\<close> is what becomes of the body. \<^verbatim>\<open>fetch\<close> resolves whatever the
  status is and no continuation reads \<^verbatim>\<open>response.ok\<close> or \<^verbatim>\<open>response.status\<close>.
\<close>

datatype event =
    TapWelcome
  | TypeIp string
  | TypePort string
  | PressConnect
  | PressDisconnect
  | PressControl
  | TimerTick
  | Settle nat outcome
  | SettleHttp nat nat outcome

text \<open>Which of the three screens the render returns.\<close>

definition on_analysis_screen :: "App \<Rightarrow> bool" where
  "on_analysis_screen s = (\<not> showWelcome s \<and> isConnected s)"

definition on_connection_screen :: "App \<Rightarrow> bool" where
  "on_connection_screen s = (\<not> showWelcome s \<and> \<not> isConnected s)"

fun expects :: "chain \<Rightarrow> outcome \<Rightarrow> bool" where
  "expects c Rejected = True"
| "expects c NullJson = True"
| "expects c (StatusJson d) = (c = StatusChain)"
| "expects c (SuccessJson b) = (c = StartChain \<or> c = StopChain)"
| "expects c (DataJson d) = (c = DataChain)"

text \<open>
  The continuations of a settled promise: \<^verbatim>\<open>.then(...).catch(...).finally(...)\<close> for the
  three requests made from a button, \<^verbatim>\<open>.then(...).catch(...)\<close> for the poll.
\<close>

fun continue :: "promise \<Rightarrow> outcome \<Rightarrow> App \<Rightarrow> App" where
  "continue p Rejected s =
     (case chain p of
        StatusChain \<Rightarrow> setLoading_false (testConnection_catch s)
      | StartChain \<Rightarrow> setLoading_false (startAnalysis_catch s)
      | StopChain \<Rightarrow> setLoading_false (stopAnalysis_catch s)
      | DataChain \<Rightarrow> fetchFFTData_catch s)"
| "continue p NullJson s =
     (case chain p of
        StatusChain \<Rightarrow> setLoading_false (testConnection_catch (testConnection_then_throws s))
      | StartChain \<Rightarrow> setLoading_false (startAnalysis_catch s)
      | StopChain \<Rightarrow> setLoading_false (stopAnalysis_catch s)
      | DataChain \<Rightarrow> fetchFFTData_catch (fetchFFTData_then_throws s))"
| "continue p (StatusJson d) s = setLoading_false (testConnection_then d s)"
| "continue p (SuccessJson b) s =
     (if chain p = StartChain then setLoading_false (startAnalysis_then p b s)
      else setLoading_false (stopAnalysis_then b s))"
| "continue p (DataJson d) s = fetchFFTData_then d s"

definition remove_nth :: "nat \<Rightarrow> 'a list \<Rightarrow> 'a list" where
  "remove_nth i xs = take i xs @ drop (Suc i) xs"

text \<open>
  The handler an event runs. A widget that is not on the screen, or is disabled
  (\<^verbatim>\<open>disabled={loading}\<close>), runs nothing; so does the settling of a promise that does
  not exist or with a body of another endpoint's shape.
\<close>

fun handle :: "event \<Rightarrow> App \<Rightarrow> App" where
  "handle TapWelcome s = (if showWelcome s then s\<lparr>showWelcome := False\<rparr> else s)"
| "handle (TypeIp t) s = (if on_connection_screen s then s\<lparr>ipAddress := t\<rparr> else s)"
| "handle (TypePort t) s = (if on_connection_screen s then s\<lparr>port := t\<rparr> else s)"
| "handle PressConnect s =
     (if on_connection_screen s \<and> \<not> loading s then testConnection s else s)"
| "handle PressDisconnect s = (if on_analysis_screen s then disconnect_onPress s else s)"
| "handle PressControl s =
     (if on_analysis_screen s \<and> \<not> loading s
      then (if isAnalysisRunning s then stopAnalysis s else startAnalysis s)
      else s)"
| "handle TimerTick s =
     (case timer s of None \<Rightarrow> s | Some t \<Rightarrow> fetchFFTData (cb_ip t) (cb_port t) s)"
| "handle (Settle i r) s =
     (if i < length (inflight s) \<and> expects (chain (inflight s ! i)) r
      then continue (inflight s ! i) r (s\<lparr>inflight := remove_nth i (inflight s)\<rparr>)
      else s)"
| "handle (SettleHttp i code r) s =
     (if i < length (inflight s) \<and> expects (chain (inflight s ! i)) r
      then continue (inflight s ! i) r (s\<lparr>inflight := remove_nth i (inflight s)\<rparr>)
      else s)"

text \<open>One event: its handler, then the render and the effect.\<close>

definition step :: "event \<Rightarrow> App \<Rightarrow> App" where
  "step e s = useEffect s (handle e s)"

fun run :: "event list \<Rightarrow> App \<Rightarrow> App" where
  "run [] s = s"
| "run (e # es) s = run es (step e s)"

section \<open>Concrete sessions\<close>

text \<open>
  States reached from the initial render by short event sequences; the closed theorems
  below are evaluated on them.
\<close>

definition snapshot_running :: FFTData where
  "snapshot_running = \<lparr>timestamp = 1, peak_data = [\<lparr>frequency = 50, magnitude = 2\<rparr>],
     max_voltage = 3, total_power = 4, is_running = True\<rparr>"

definition snapshot_stopped :: FFTData where
  "snapshot_stopped = \<lparr>timestamp = 2, peak_data = [], max_voltage = 0, total_power = 0,
     is_running = False\<rparr>"

definition status_idle :: StatusData where
  "status_idle = \<lparr>version = ''1.0'', analysis_running = False\<rparr>"

definition status_running :: StatusData where
  "status_running = \<lparr>version = ''1.0'', analysis_running = True\<rparr>"

text \<open>Welcome dismissed, Connect pressed, the status request pending.\<close>

definition connecting :: App where
  "connecting = run [TapWelcome, PressConnect] App_init"

text \<open>Connected to a device that reports no analysis running.\<close>

definition connected_idle :: App where
  "connected_idle = step (Settle 0 (StatusJson status_idle)) connecting"

text \<open>Start pressed and acknowledged: analysis running, two polls pending, no data yet.\<close>

definition polling :: App where
  "polling = run [PressControl, Settle 0 (SuccessJson True)] connected_idle"

text \<open>The first poll has answered with a running snapshot; the second is pending.\<close>

definition showing :: App where
  "showing = step (Settle 0 (DataJson snapshot_running)) polling"

text \<open>The first poll has answered that the analysis stopped; the second is pending.\<close>

definition stopped_by_poll :: App where
  "stopped_by_poll = step (Settle 0 (DataJson snapshot_stopped)) polling"

text \<open>
  The effect's invariant: an interval is installed exactly while the component is
  connected with the analysis running, with the delay and closure of the last run.
\<close>

text \<open>
  The requests for \<^verbatim>\<open>/api/fft/data\<close> among those sent so far, and the event sequences
  along which \<^verbatim>\<open>isAnalysisRunning\<close> is false after every event.
\<close>

definition is_data_request :: "request \<Rightarrow> bool" where
  "is_data_request r = suffix ''/api/fft/data'' (url r)"

definition polls :: "App \<Rightarrow> request list" where
  "polls s = filter is_data_request (requests s)"

fun stays_idle :: "event list \<Rightarrow> App \<Rightarrow> bool" where
  "stays_idle [] s = True"
| "stays_idle (e # es) s = (\<not> isAnalysisRunning (step e s) \<and> stays_idle es (step e s))"


section \<open>Basic facts\<close>

lemmas handler_defs = api_url_def get_request_def post_request_def fetch_def Alert_alert_def
  console_log_def fetchFFTData_def fetchFFTData_then_def fetchFFTData_catch_def
  testConnection_def testConnection_then_def testConnection_catch_def setLoading_false_def
  testConnection_then_throws_def fetchFFTData_then_throws_def
  startAnalysis_def startAnalysis_then_def startAnalysis_catch_def stopAnalysis_def
  stopAnalysis_then_def stopAnalysis_catch_def disconnect_onPress_def

lemmas screen_defs = on_analysis_screen_def on_connection_screen_def

lemmas demo_defs = snapshot_running_def snapshot_stopped_def status_idle_def
  status_running_def App_init_def

lemma remove_nth_Nil [simp]: "remove_nth i [] = []"
  by (simp add: remove_nth_def)

lemma remove_nth_0 [simp]: "remove_nth 0 (x # xs) = xs"
  by (simp add: remove_nth_def)

lemma remove_nth_Suc [simp]: "remove_nth (Suc i) (x # xs) = x # remove_nth i xs"
  by (simp add: remove_nth_def)

lemma connecting_eq:
  "connecting = \<lparr>showWelcome = False, ipAddress = ''10.141.192.169'', port = ''5000'',
     isConnected = False, isAnalysisRunning = False, fftData = None, loading = True,
     timer = None,
     requests = [get_request ''http://10.141.192.169:5000/api/status''],
     inflight = [\<lparr>chain = StatusChain, at_ip = ''10.141.192.169'', at_port = ''5000''\<rparr>],
     alerts = [], console = []\<rparr>"
  by (simp add: connecting_def demo_defs handler_defs screen_defs step_def useEffect_def)

lemma connected_idle_eq:
  "connected_idle = \<lparr>showWelcome = False, ipAddress = ''10.141.192.169'', port = ''5000'',
     isConnected = True, isAnalysisRunning = False, fftData = None, loading = False,
     timer = None,
     requests = [get_request ''http://10.141.192.169:5000/api/status''],
     inflight = [],
     alerts = [(''Connection Successful!'', ''Connected to server version 1.0.'')],
     console = []\<rparr>"
  by (simp add: connected_idle_def connecting_eq demo_defs handler_defs screen_defs
      step_def useEffect_def)

lemma polling_eq:
  "polling = \<lparr>showWelcome = False, ipAddress = ''10.141.192.169'', port = ''5000'',
     isConnected = True, isAnalysisRunning = True, fftData = None, loading = False,
     timer = Some \<lparr>cb_ip = ''10.141.192.169'', cb_port = ''5000'', delay = 1000\<rparr>,
     requests = [get_request ''http://10.141.192.169:5000/api/status'',
                 post_request ''http://10.141.192.169:5000/api/fft/start'',
                 get_request ''http://10.141.192.169:5000/api/fft/data'',
                 get_request ''http://10.141.192.169:5000/api/fft/data''],
     inflight = [\<lparr>chain = DataChain, at_ip = ''10.141.192.169'', at_port = ''5000''\<rparr>,
                 \<lparr>chain = DataChain, at_ip = ''10.141.192.169'', at_port = ''5000''\<rparr>],
     alerts = [(''Connection Successful!'', ''Connected to server version 1.0.'')],
     console = []\<rparr>"
  by (simp add: polling_def connected_idle_eq demo_defs handler_defs screen_defs
      step_def useEffect_def)

lemma showing_eq:
  "showing = polling\<lparr>fftData := Some snapshot_running,
     inflight := [\<lparr>chain = DataChain, at_ip = ''10.141.192.169'', at_port = ''5000''\<rparr>]\<rparr>"
  by (simp add: showing_def polling_eq demo_defs handler_defs screen_defs
      step_def useEffect_def)

lemma stopped_by_poll_eq:
  "stopped_by_poll = polling\<lparr>fftData := Some snapshot_stopped, isAnalysisRunning := False,
     timer := None,
     inflight := [\<lparr>chain = DataChain, at_ip = ''10.141.192.169'', at_port = ''5000''\<rparr>]\<rparr>"
  by (simp add: stopped_by_poll_def polling_eq demo_defs handler_defs screen_defs
      step_def useEffect_def)



section \<open>Disconnecting\<close>

text \<open>
  C1, as the specification states it: from every state, also with the analysis running
  and a snapshot on the screen, disconnecting leaves the session disconnected, the
  acquisition idle and no snapshot. The Disconnect button only calls
  \<^verbatim>\<open>setIsConnected(false)\<close>: in the state \<open>showing\<close> (connected, running, a snapshot
  present) the press leaves \<^verbatim>\<open>isAnalysisRunning\<close> true and \<^verbatim>\<open>fftData\<close> in place.
\<close>

theorem disconnect_keeps_acquisition_and_snapshot:
  "isConnected (step PressDisconnect showing) = False \<and>
   isAnalysisRunning (step PressDisconnect showing) = True \<and>
   fftData (step PressDisconnect showing) = Some snapshot_running"
  by (simp add: showing_eq polling_eq handler_defs screen_defs step_def useEffect_def)

text \<open>
  C1, amended: whenever the Disconnect button is on the screen, pressing it sets
  \<^verbatim>\<open>isConnected\<close> to false and the effect's cleanup clears the polling interval;
  every other part of the state, \<^verbatim>\<open>isAnalysisRunning\<close>, \<^verbatim>\<open>fftData\<close> and the pending
  requests among them, is left as it was.
\<close>

theorem disconnect_clears_connection_only:
  "on_analysis_screen s \<Longrightarrow> step PressDisconnect s = s\<lparr>isConnected := False, timer := None\<rparr>"
  by (simp add: handler_defs screen_defs step_def useEffect_def)

theorem disconnect_clears_connection_only_witness:
  "on_analysis_screen showing \<and>
   step PressDisconnect showing = showing\<lparr>isConnected := False, timer := None\<rparr>"
  using disconnect_clears_connection_only [of showing]
  by (simp add: showing_eq polling_eq screen_defs)

text \<open>
  C2, as the specification states it: the response of a poll that was pending when the
  user disconnected never changes the latest snapshot. There is no epoch counter in the
  component and the continuation of \<^verbatim>\<open>fetchFFTData\<close> checks nothing: in the state
  \<open>polling\<close> no snapshot has arrived, a poll is pending, the user disconnects, and the
  response then stores its snapshot.
\<close>

theorem late_poll_response_sets_snapshot:
  "fftData (step PressDisconnect polling) = None \<and>
   chain (inflight (step PressDisconnect polling) ! 0) = DataChain \<and>
   fftData (step (Settle 0 (DataJson snapshot_running)) (step PressDisconnect polling))
     = Some snapshot_running"
  by (simp add: polling_eq handler_defs screen_defs step_def useEffect_def)

text \<open>
  C2, amended: the response of a poll that was pending at the disconnect is applied like
  any other: it replaces \<^verbatim>\<open>fftData\<close> and sets \<^verbatim>\<open>isAnalysisRunning\<close> to the snapshot's
  \<^verbatim>\<open>is_running\<close>. It does not reconnect, installs no interval and issues no request.
\<close>

theorem poll_response_after_disconnect:
  "on_analysis_screen s \<Longrightarrow> i < length (inflight s) \<Longrightarrow> chain (inflight s ! i) = DataChain \<Longrightarrow>
   step (Settle i (DataJson d)) (step PressDisconnect s) =
     s\<lparr>isConnected := False, timer := None, inflight := remove_nth i (inflight s),
       fftData := Some d, isAnalysisRunning := is_running d\<rparr>"
  by (simp add: handler_defs screen_defs step_def useEffect_def)

theorem poll_response_after_disconnect_witness:
  "on_analysis_screen polling \<and> 0 < length (inflight polling) \<and>
   chain (inflight polling ! 0) = DataChain \<and>
   step (Settle 0 (DataJson snapshot_running)) (step PressDisconnect polling) =
     polling\<lparr>isConnected := False, timer := None,
       inflight := remove_nth 0 (inflight polling),
       fftData := Some snapshot_running, isAnalysisRunning := is_running snapshot_running\<rparr>"
  using poll_response_after_disconnect [of polling 0 snapshot_running]
  by (simp add: polling_eq screen_defs)

section \<open>Starting and stopping\<close>

text \<open>
  C3: \<^verbatim>\<open>startAnalysis\<close> and \<^verbatim>\<open>stopAnalysis\<close> are called from one place, the Start/Stop
  button. While \<^verbatim>\<open>loading\<close> is set (a start, stop or connect request is outstanding)
  the button is disabled and a press does nothing. Otherwise the press calls
  \<^verbatim>\<open>startAnalysis\<close> only if no analysis is running and \<^verbatim>\<open>stopAnalysis\<close> only if one is,
  and sets \<^verbatim>\<open>loading\<close>; so two presses in a row send exactly one request, a start
  request when the acquisition was idle.
\<close>

theorem control_button_single_request:
  "on_analysis_screen s \<Longrightarrow>
   (loading s \<longrightarrow> step PressControl s = s) \<and>
   (\<not> loading s \<longrightarrow>
      requests (step PressControl (step PressControl s)) =
        requests s @ [post_request (api_url (ipAddress s) (port s)
          (if isAnalysisRunning s then ''/api/fft/stop'' else ''/api/fft/start''))])"
  by (simp add: handler_defs screen_defs step_def useEffect_def)

theorem control_button_single_request_witness:
  "on_analysis_screen connected_idle \<and> \<not> loading connected_idle \<and>
   loading (step PressControl connected_idle) \<and>
   step PressControl (step PressControl connected_idle) = step PressControl connected_idle \<and>
   requests (step PressControl (step PressControl connected_idle)) =
     requests connected_idle @ [post_request ''http://10.141.192.169:5000/api/fft/start'']"
  using control_button_single_request [of connected_idle]
    control_button_single_request [of "step PressControl connected_idle"]
  by (simp add: connected_idle_eq handler_defs screen_defs step_def useEffect_def)

section \<open>Connecting\<close>

text \<open>
  C4, as the specification states it: a failed connect puts the session in a status
  ConnectionFailed and records NetworkUnreachable as the last error. The component has
  neither: after a rejected status request every state variable is what it was before
  Connect was pressed, and the only traces of the attempt are the request itself and
  the alert.
\<close>

theorem failed_connect_leaves_disconnected_state:
  "run [TapWelcome, PressConnect, Settle 0 Rejected] App_init =
     (run [TapWelcome] App_init)
       \<lparr>requests := [get_request ''http://10.141.192.169:5000/api/status''],
        alerts := [(''Connection Failed'',
          ''Error connecting to server. Please check the IP address and port.'')]\<rparr>"
  by (simp add: demo_defs handler_defs screen_defs step_def useEffect_def)

text \<open>
  C4, amended: when the status request fails (the host is unreachable, the request
  times out), \<^verbatim>\<open>isConnected\<close> is false, \<^verbatim>\<open>loading\<close> is cleared and the alert
  "Connection Failed" is shown. Nothing else changes: there is no status apart from
  connected and not connected, and no error is stored. A press on Connect afterwards
  sends a new status request.
\<close>

theorem failed_connect_alert_and_retry:
  "i < length (inflight s) \<Longrightarrow> chain (inflight s ! i) = StatusChain \<Longrightarrow> \<not> showWelcome s \<Longrightarrow>
   step (Settle i Rejected) s =
     s\<lparr>isConnected := False, loading := False,
       timer := (if isConnected s then None else timer s),
       inflight := remove_nth i (inflight s),
       alerts := alerts s @ [(''Connection Failed'',
         ''Error connecting to server. Please check the IP address and port.'')]\<rparr> \<and>
   requests (step PressConnect (step (Settle i Rejected) s)) =
     requests s @ [get_request (api_url (ipAddress s) (port s) ''/api/status'')]"
  by (simp add: handler_defs screen_defs step_def useEffect_def)

theorem failed_connect_alert_and_retry_witness:
  "0 < length (inflight connecting) \<and> chain (inflight connecting ! 0) = StatusChain \<and>
   \<not> showWelcome connecting \<and>
   \<not> isConnected (step (Settle 0 Rejected) connecting) \<and>
   \<not> loading (step (Settle 0 Rejected) connecting) \<and>
   alerts (step (Settle 0 Rejected) connecting) = [(''Connection Failed'',
         ''Error connecting to server. Please check the IP address and port.'')] \<and>
   requests (step PressConnect (step (Settle 0 Rejected) connecting)) =
     [get_request ''http://10.141.192.169:5000/api/status'',
      get_request ''http://10.141.192.169:5000/api/status'']"
  using failed_connect_alert_and_retry [of 0 connecting]
  by (simp add: connecting_eq handler_defs screen_defs step_def useEffect_def)

text \<open>
  C5, as the specification states it: an endpoint with an empty host or a port outside
  1..65535 is rejected before any request is sent. \<^verbatim>\<open>testConnection\<close> validates
  nothing: with the host field emptied and the port set to 70000, Connect sends the
  status request to \<^verbatim>\<open>http://:70000/api/status\<close> and shows no alert.
\<close>

theorem connect_sends_request_to_invalid_endpoint:
  "requests (run [TapWelcome, TypeIp [], TypePort ''70000'', PressConnect] App_init) =
     [get_request ''http://:70000/api/status''] \<and>
   alerts (run [TapWelcome, TypeIp [], TypePort ''70000'', PressConnect] App_init) = []"
  by (simp add: demo_defs handler_defs screen_defs step_def useEffect_def)

text \<open>
  C5, amended: the endpoint is not validated. Whatever the two text fields hold, a press
  on the enabled Connect button sets \<^verbatim>\<open>loading\<close> and sends one GET request to
  \<^verbatim>\<open>http://{ipAddress}:{port}/api/status\<close>, and changes nothing else; a malformed
  endpoint can only show up as a failure of that request.
\<close>

theorem connect_always_sends_status_request:
  "on_connection_screen s \<Longrightarrow> \<not> loading s \<Longrightarrow>
   step PressConnect s =
     s\<lparr>loading := True,
       requests := requests s @ [get_request (api_url (ipAddress s) (port s) ''/api/status'')],
       inflight := inflight s @
         [\<lparr>chain = StatusChain, at_ip = ipAddress s, at_port = port s\<rparr>]\<rparr>"
  by (simp add: handler_defs screen_defs step_def useEffect_def)

theorem connect_always_sends_status_request_witness:
  "on_connection_screen (run [TapWelcome, TypeIp [], TypePort ''0''] App_init) \<and>
   \<not> loading (run [TapWelcome, TypeIp [], TypePort ''0''] App_init) \<and>
   requests (step PressConnect (run [TapWelcome, TypeIp [], TypePort ''0''] App_init)) =
     [get_request ''http://:0/api/status'']"
  using connect_always_sends_status_request
    [of "run [TapWelcome, TypeIp [], TypePort ''0''] App_init"]
  by (simp add: demo_defs handler_defs screen_defs step_def useEffect_def)

text \<open>
  C9: when a pending status request resolves with a status body, the component is
  connected, \<^verbatim>\<open>isAnalysisRunning\<close> is the body's \<^verbatim>\<open>analysis_running\<close>, and \<^verbatim>\<open>loading\<close> is
  cleared. For a device that reports version 1.0 and no analysis running (the witness)
  this is: connected and idle.
\<close>

theorem connect_success_records_server_state:
  "i < length (inflight s) \<Longrightarrow> chain (inflight s ! i) = StatusChain \<Longrightarrow>
   isConnected (step (Settle i (StatusJson d)) s) \<and>
   isAnalysisRunning (step (Settle i (StatusJson d)) s) = analysis_running d \<and>
   \<not> loading (step (Settle i (StatusJson d)) s)"
  by (simp add: handler_defs screen_defs step_def useEffect_def)

theorem connect_success_records_server_state_witness:
  "0 < length (inflight connecting) \<and> chain (inflight connecting ! 0) = StatusChain \<and>
   isConnected (step (Settle 0 (StatusJson \<lparr>version = ''1.0'', analysis_running = False\<rparr>))
     connecting) \<and>
   \<not> isAnalysisRunning (step (Settle 0 (StatusJson \<lparr>version = ''1.0'', analysis_running = False\<rparr>))
     connecting)"
  using connect_success_records_server_state
    [of 0 connecting "\<lparr>version = ''1.0'', analysis_running = False\<rparr>"]
  by (simp add: connecting_eq)

section \<open>Polling\<close>



lemma handle_timer: "timer (handle e s) = timer s"
proof (cases e)
  case (Settle i r)
  then show ?thesis
    by (cases r; cases "chain (inflight s ! i)") (simp_all add: handler_defs)
next
  case (SettleHttp i code r)
  then show ?thesis
    by (cases r; cases "chain (inflight s ! i)") (simp_all add: handler_defs)
qed (simp_all add: handler_defs split: option.splits)






lemma tick_without_timer: "timer s = None \<Longrightarrow> step TimerTick s = s"
  by (simp add: step_def useEffect_def)

lemma ticks_without_timer: "timer s = None \<Longrightarrow> run (replicate n TimerTick) s = s"
  by (induction n) (simp_all add: tick_without_timer)

text \<open>Which requests are polls.\<close>

lemma suffix_last: "suffix xs ys \<Longrightarrow> xs \<noteq> [] \<Longrightarrow> last ys = last xs"
  by (auto simp: suffix_def)

lemma not_data_status [simp]:
  "\<not> is_data_request (get_request (api_url ip p ''/api/status''))"
  by (auto simp: is_data_request_def get_request_def api_url_def dest!: suffix_last)

lemma not_data_start [simp]:
  "\<not> is_data_request (post_request (api_url ip p ''/api/fft/start''))"
  by (auto simp: is_data_request_def post_request_def api_url_def dest!: suffix_last)

lemma not_data_stop [simp]:
  "\<not> is_data_request (post_request (api_url ip p ''/api/fft/stop''))"
  by (auto simp: is_data_request_def post_request_def api_url_def dest!: suffix_last)

lemma is_data_poll [simp]:
  "is_data_request (get_request (api_url ip p ''/api/fft/data''))"
  by (simp add: is_data_request_def get_request_def api_url_def suffix_def)

lemmas state_defs = fetch_def Alert_alert_def
  console_log_def fetchFFTData_def fetchFFTData_then_def fetchFFTData_catch_def
  testConnection_def testConnection_then_def testConnection_catch_def setLoading_false_def
  testConnection_then_throws_def fetchFFTData_then_throws_def
  startAnalysis_def startAnalysis_then_def startAnalysis_catch_def stopAnalysis_def
  stopAnalysis_then_def stopAnalysis_catch_def disconnect_onPress_def

text \<open>
  With no interval installed, the only handler that sends a poll is the continuation of
  an acknowledged start, and it sets \<^verbatim>\<open>isAnalysisRunning\<close>.
\<close>

lemma idle_handle:
  assumes "timer s = None" and "\<not> isAnalysisRunning (handle e s)"
  shows "polls (handle e s) = polls s"
proof (cases e)
  case (Settle i r)
  then show ?thesis
    using assms
    by (cases r; cases "chain (inflight s ! i)")
      (auto simp: state_defs polls_def split: if_splits)
next
  case (SettleHttp i code r)
  then show ?thesis
    using assms
    by (cases r; cases "chain (inflight s ! i)")
      (auto simp: state_defs polls_def split: if_splits)
qed (use assms in \<open>auto simp: state_defs polls_def split: if_splits\<close>)

lemma idle_step:
  assumes "timer s = None" and "\<not> isAnalysisRunning (step e s)"
  shows "timer (step e s) = None \<and> polls (step e s) = polls s"
proof -
  have idle: "\<not> isAnalysisRunning (handle e s)"
    using assms(2) by (auto simp: step_def useEffect_def fetchFFTData_def fetch_def split: if_splits)
  have t: "timer (handle e s) = None"
    using assms(1) by (simp add: handle_timer)
  have "step e s = handle e s \<or> step e s = (handle e s)\<lparr>timer := None\<rparr>"
    using idle by (auto simp: step_def useEffect_def)
  then have "timer (step e s) = None \<and> polls (step e s) = polls (handle e s)"
    using t by (auto simp: polls_def)
  then show ?thesis
    using idle_handle [OF assms(1) idle] by simp
qed

lemma idle_run:
  "timer s = None \<Longrightarrow> stays_idle es s \<Longrightarrow>
   timer (run es s) = None \<and> polls (run es s) = polls s"
proof (induction es arbitrary: s)
  case Nil
  then show ?case by simp
next
  case (Cons e es)
  from Cons.prems have idle: "\<not> isAnalysisRunning (step e s)" and rest: "stays_idle es (step e s)"
    by simp_all
  from idle_step [OF Cons.prems(1) idle]
  have t: "timer (step e s) = None" and p: "polls (step e s) = polls s"
    by simp_all
  from Cons.IH [OF t rest] p show ?case
    by simp
qed



text \<open>
  C7, as the specification states it: once a poll has answered \<^verbatim>\<open>is_running: false\<close>
  while the analysis was running, no further request for \<^verbatim>\<open>/api/fft/data\<close> is sent. In
  the state \<open>polling\<close> two polls are pending. The first answers that the analysis has
  stopped: the flag goes down and the interval is cleared. The second then answers that
  it is running: the flag goes up again and the effect installs a new interval and
  sends a poll, without the user doing anything.
\<close>

theorem stale_poll_restarts_polling:
  "isAnalysisRunning polling \<and> chain (inflight polling ! 0) = DataChain \<and>
   \<not> is_running snapshot_stopped \<and>
   \<not> isAnalysisRunning (step (Settle 0 (DataJson snapshot_stopped)) polling) \<and>
   timer (step (Settle 0 (DataJson snapshot_stopped)) polling) = None \<and>
   requests (step (Settle 0 (DataJson snapshot_stopped)) polling) = requests polling \<and>
   timer (step (Settle 0 (DataJson snapshot_running))
     (step (Settle 0 (DataJson snapshot_stopped)) polling)) =
       Some \<lparr>cb_ip = ''10.141.192.169'', cb_port = ''5000'', delay = 1000\<rparr> \<and>
   requests (step (Settle 0 (DataJson snapshot_running))
     (step (Settle 0 (DataJson snapshot_stopped)) polling)) =
       requests polling @ [get_request ''http://10.141.192.169:5000/api/fft/data'']"
  by (simp add: polling_eq demo_defs handler_defs step_def useEffect_def)

text \<open>
  C7, amended: when a pending poll answers \<^verbatim>\<open>is_running: false\<close> while the analysis is
  running, the snapshot is stored, \<^verbatim>\<open>isAnalysisRunning\<close> becomes false and the effect's
  cleanup clears the interval. The response sends no request, ticks after it change
  nothing, and whatever events follow, no request for \<^verbatim>\<open>/api/fft/data\<close> is sent and no
  interval is installed for as long as \<^verbatim>\<open>isAnalysisRunning\<close> stays false.
\<close>

theorem poll_reports_stopped:
  "i < length (inflight s) \<Longrightarrow> chain (inflight s ! i) = DataChain \<Longrightarrow> isAnalysisRunning s \<Longrightarrow>
   \<not> is_running d \<Longrightarrow>
   step (Settle i (DataJson d)) s =
     s\<lparr>inflight := remove_nth i (inflight s), fftData := Some d,
       isAnalysisRunning := False, timer := None\<rparr> \<and>
   run (replicate n TimerTick) (step (Settle i (DataJson d)) s) = step (Settle i (DataJson d)) s \<and>
   (stays_idle es (step (Settle i (DataJson d)) s) \<longrightarrow>
      timer (run es (step (Settle i (DataJson d)) s)) = None \<and>
      polls (run es (step (Settle i (DataJson d)) s)) = polls s)"
proof -
  assume a: "i < length (inflight s)" "chain (inflight s ! i) = DataChain"
    "isAnalysisRunning s" "\<not> is_running d"
  have eq: "step (Settle i (DataJson d)) s =
     s\<lparr>inflight := remove_nth i (inflight s), fftData := Some d,
       isAnalysisRunning := False, timer := None\<rparr>"
    using a by (simp add: handler_defs step_def useEffect_def)
  then have t: "timer (step (Settle i (DataJson d)) s) = None"
    by simp
  have p: "polls (step (Settle i (DataJson d)) s) = polls s"
    by (simp add: eq polls_def)
  have ticks: "run (replicate n TimerTick) (step (Settle i (DataJson d)) s)
      = step (Settle i (DataJson d)) s"
    using t by (rule ticks_without_timer)
  have later: "stays_idle es (step (Settle i (DataJson d)) s) \<longrightarrow>
      timer (run es (step (Settle i (DataJson d)) s)) = None \<and>
      polls (run es (step (Settle i (DataJson d)) s)) = polls s"
    using idle_run [OF t] p by simp
  from eq ticks later show ?thesis
    by blast
qed

theorem poll_reports_stopped_witness:
  "0 < length (inflight showing) \<and> chain (inflight showing ! 0) = DataChain \<and>
   isAnalysisRunning showing \<and> \<not> is_running snapshot_stopped \<and>
   \<not> isAnalysisRunning (step (Settle 0 (DataJson snapshot_stopped)) showing) \<and>
   timer (step (Settle 0 (DataJson snapshot_stopped)) showing) = None \<and>
   run (replicate 3 TimerTick) (step (Settle 0 (DataJson snapshot_stopped)) showing) =
     step (Settle 0 (DataJson snapshot_stopped)) showing \<and>
   stays_idle [TimerTick, PressControl, TimerTick]
     (step (Settle 0 (DataJson snapshot_stopped)) showing) \<and>
   polls (run [TimerTick, PressControl, TimerTick]
     (step (Settle 0 (DataJson snapshot_stopped)) showing)) = polls showing"
proof -
  have h: "0 < length (inflight showing)" "chain (inflight showing ! 0) = DataChain"
    "isAnalysisRunning showing" "\<not> is_running snapshot_stopped"
    by (simp_all add: showing_eq polling_eq snapshot_stopped_def)
  note inst = poll_reports_stopped [OF h, of 3 "[TimerTick, PressControl, TimerTick]"]
  have s': "step (Settle 0 (DataJson snapshot_stopped)) showing =
      showing\<lparr>inflight := [], fftData := Some snapshot_stopped,
        isAnalysisRunning := False, timer := None\<rparr>"
    using inst by (simp add: showing_eq polling_eq)
  have idle: "stays_idle [TimerTick, PressControl, TimerTick]
      (step (Settle 0 (DataJson snapshot_stopped)) showing)"
    unfolding s'
    by (simp add: showing_eq polling_eq handler_defs screen_defs step_def useEffect_def)
  have flag: "\<not> isAnalysisRunning (step (Settle 0 (DataJson snapshot_stopped)) showing)"
    and tm: "timer (step (Settle 0 (DataJson snapshot_stopped)) showing) = None"
    unfolding s' by simp_all
  from h flag tm inst idle show ?thesis
    by blast
qed

text \<open>
  C8, as the specification states it: every poll that fails is logged and skipped, with
  the snapshot and the acquisition status as they were. Two failed polls in the state
  \<open>showing\<close> (running, a snapshot on the screen, one poll pending) are not skipped. A
  body of \<^verbatim>\<open>null\<close> is logged, but \<^verbatim>\<open>setFftData(null)\<close> has run before the
  continuation throws, and the snapshot is gone. A reply with status 500 and a JSON
  body is not seen as a failure at all: nothing is logged, its body replaces the
  snapshot, and as it says \<^verbatim>\<open>is_running: false\<close> polling stops.
\<close>

theorem failed_poll_changes_snapshot:
  "chain (inflight showing ! 0) = DataChain \<and>
   isAnalysisRunning showing \<and> fftData showing = Some snapshot_running \<and>
   console (step (Settle 0 NullJson) showing) = [''Error fetching FFT data''] \<and>
   fftData (step (Settle 0 NullJson) showing) = None \<and>
   console (step (SettleHttp 0 500 (DataJson snapshot_stopped)) showing) = [] \<and>
   fftData (step (SettleHttp 0 500 (DataJson snapshot_stopped)) showing) = Some snapshot_stopped \<and>
   \<not> isAnalysisRunning (step (SettleHttp 0 500 (DataJson snapshot_stopped)) showing) \<and>
   timer (step (SettleHttp 0 500 (DataJson snapshot_stopped)) showing) = None"
  by (simp add: showing_eq polling_eq demo_defs handler_defs step_def useEffect_def)

text \<open>
  C8, amended: when the request of a pending poll is rejected (the host is unreachable,
  the request times out, or the body is not JSON), the only changes are that the promise
  is gone and the line "Error fetching FFT data" is on the console: connection,
  acquisition flag, snapshot, alerts and the interval are as before, and the next tick
  of an installed interval sends its poll. The HTTP status of a reply is never looked
  at: a reply is handled by its body alone, whatever its status.
\<close>

theorem poll_failure_is_skipped:
  "i < length (inflight s) \<Longrightarrow> chain (inflight s ! i) = DataChain \<Longrightarrow>
   step (Settle i Rejected) s =
     s\<lparr>inflight := remove_nth i (inflight s),
       console := console s @ [''Error fetching FFT data'']\<rparr> \<and>
   (\<forall>t. timer s = Some t \<longrightarrow>
      requests (step TimerTick (step (Settle i Rejected) s)) =
        requests s @ [get_request (api_url (cb_ip t) (cb_port t) ''/api/fft/data'')]) \<and>
   step (SettleHttp i code r) s = step (Settle i r) s"
  by (simp add: handler_defs screen_defs step_def useEffect_def)

theorem poll_failure_is_skipped_witness:
  "0 < length (inflight showing) \<and> chain (inflight showing ! 0) = DataChain \<and>
   step (Settle 0 Rejected) showing =
     showing\<lparr>inflight := [], console := [''Error fetching FFT data'']\<rparr> \<and>
   fftData (step (Settle 0 Rejected) showing) = Some snapshot_running \<and>
   requests (step TimerTick (step (Settle 0 Rejected) showing)) =
     requests showing @ [get_request ''http://10.141.192.169:5000/api/fft/data''] \<and>
   step (SettleHttp 0 503 Rejected) showing = step (Settle 0 Rejected) showing"
  using poll_failure_is_skipped [of 0 showing 503 Rejected]
  by (simp add: showing_eq polling_eq handler_defs step_def useEffect_def)

text \<open>
  C10: when a pending poll resolves with a snapshot, \<^verbatim>\<open>isAnalysisRunning\<close> is the
  snapshot's \<^verbatim>\<open>is_running\<close> and the snapshot is stored. The flag can go up as well as
  down: in \<open>stopped_by_poll\<close> the analysis is not running, and the answer of the poll
  still pending sets it running again (the witness).
\<close>

theorem poll_success_sets_running_flag:
  "i < length (inflight s) \<Longrightarrow> chain (inflight s ! i) = DataChain \<Longrightarrow>
   isAnalysisRunning (step (Settle i (DataJson d)) s) = is_running d \<and>
   fftData (step (Settle i (DataJson d)) s) = Some d"
  by (simp add: handler_defs screen_defs step_def useEffect_def)

theorem poll_success_sets_running_flag_witness:
  "0 < length (inflight stopped_by_poll) \<and> chain (inflight stopped_by_poll ! 0) = DataChain \<and>
   \<not> isAnalysisRunning stopped_by_poll \<and>
   isAnalysisRunning (step (Settle 0 (DataJson snapshot_running)) stopped_by_poll) \<and>
   fftData (step (Settle 0 (DataJson snapshot_running)) stopped_by_poll) = Some snapshot_running"
  using poll_success_sets_running_flag [of 0 stopped_by_poll snapshot_running]
  by (simp add: stopped_by_poll_eq polling_eq snapshot_running_def)

end
